theory Spec2Isabelle
  imports Complex_Main
begin

section \<open>Numbers\<close>

text \<open>
  The firmware computes in \<^verbatim>\<open>float\<close> and \<^verbatim>\<open>floatc_t\<close>. Both are modelled by one
  type of idealised IEEE values: a finite value is an exact real (no rounding, no overflow,
  one unsigned zero), and the two infinities and NaN follow the IEEE rules for propagation
  (\<open>inf - inf\<close>, \<open>0 * inf\<close>, \<open>0 / 0\<close> and \<open>inf / inf\<close> are NaN, a non-zero finite value
  divided by zero is the infinity of the dividend's sign, every ordered comparison with NaN
  is false). Casts between the two C++ types are the identity.
\<close>

datatype floatc_t = Fin real | PInf | MInf | NaN

instantiation floatc_t :: "{zero, one, uminus, plus, minus, times, inverse, abs, ord}"
begin

definition zero_floatc_t :: floatc_t where
  "zero_floatc_t = Fin 0"

definition one_floatc_t :: floatc_t where
  "one_floatc_t = Fin 1"

fun uminus_floatc_t :: "floatc_t \<Rightarrow> floatc_t" where
  "uminus_floatc_t (Fin a) = Fin (- a)"
| "uminus_floatc_t PInf = MInf"
| "uminus_floatc_t MInf = PInf"
| "uminus_floatc_t NaN = NaN"

fun plus_floatc_t :: "floatc_t \<Rightarrow> floatc_t \<Rightarrow> floatc_t" where
  "plus_floatc_t (Fin a) (Fin b) = Fin (a + b)"
| "plus_floatc_t NaN _ = NaN"
| "plus_floatc_t _ NaN = NaN"
| "plus_floatc_t PInf MInf = NaN"
| "plus_floatc_t MInf PInf = NaN"
| "plus_floatc_t PInf _ = PInf"
| "plus_floatc_t _ PInf = PInf"
| "plus_floatc_t MInf _ = MInf"
| "plus_floatc_t _ MInf = MInf"

definition minus_floatc_t :: "floatc_t \<Rightarrow> floatc_t \<Rightarrow> floatc_t" where
  "minus_floatc_t a b = a + (- b)"

fun times_floatc_t :: "floatc_t \<Rightarrow> floatc_t \<Rightarrow> floatc_t" where
  "times_floatc_t (Fin a) (Fin b) = Fin (a * b)"
| "times_floatc_t NaN _ = NaN"
| "times_floatc_t _ NaN = NaN"
| "times_floatc_t PInf PInf = PInf"
| "times_floatc_t PInf MInf = MInf"
| "times_floatc_t MInf PInf = MInf"
| "times_floatc_t MInf MInf = PInf"
| "times_floatc_t PInf (Fin b) = (if b = 0 then NaN else if 0 < b then PInf else MInf)"
| "times_floatc_t MInf (Fin b) = (if b = 0 then NaN else if 0 < b then MInf else PInf)"
| "times_floatc_t (Fin a) PInf = (if a = 0 then NaN else if 0 < a then PInf else MInf)"
| "times_floatc_t (Fin a) MInf = (if a = 0 then NaN else if 0 < a then MInf else PInf)"

fun divide_floatc_t :: "floatc_t \<Rightarrow> floatc_t \<Rightarrow> floatc_t" where
  "divide_floatc_t (Fin a) (Fin b) =
     (if b \<noteq> 0 then Fin (a / b) else if a = 0 then NaN else if 0 < a then PInf else MInf)"
| "divide_floatc_t NaN _ = NaN"
| "divide_floatc_t _ NaN = NaN"
| "divide_floatc_t (Fin a) PInf = Fin 0"
| "divide_floatc_t (Fin a) MInf = Fin 0"
| "divide_floatc_t PInf (Fin b) = (if 0 \<le> b then PInf else MInf)"
| "divide_floatc_t MInf (Fin b) = (if 0 \<le> b then MInf else PInf)"
| "divide_floatc_t PInf PInf = NaN"
| "divide_floatc_t PInf MInf = NaN"
| "divide_floatc_t MInf PInf = NaN"
| "divide_floatc_t MInf MInf = NaN"

fun inverse_floatc_t :: "floatc_t \<Rightarrow> floatc_t" where
  "inverse_floatc_t (Fin a) = (if a \<noteq> 0 then Fin (1 / a) else PInf)"
| "inverse_floatc_t PInf = Fin 0"
| "inverse_floatc_t MInf = Fin 0"
| "inverse_floatc_t NaN = NaN"

fun abs_floatc_t :: "floatc_t \<Rightarrow> floatc_t" where
  "abs_floatc_t (Fin a) = Fin \<bar>a\<bar>"
| "abs_floatc_t PInf = PInf"
| "abs_floatc_t MInf = PInf"
| "abs_floatc_t NaN = NaN"

fun less_floatc_t :: "floatc_t \<Rightarrow> floatc_t \<Rightarrow> bool" where
  "less_floatc_t (Fin a) (Fin b) = (a < b)"
| "less_floatc_t NaN _ = False"
| "less_floatc_t _ NaN = False"
| "less_floatc_t _ MInf = False"
| "less_floatc_t PInf _ = False"
| "less_floatc_t MInf _ = True"
| "less_floatc_t _ PInf = True"

fun less_eq_floatc_t :: "floatc_t \<Rightarrow> floatc_t \<Rightarrow> bool" where
  "less_eq_floatc_t (Fin a) (Fin b) = (a \<le> b)"
| "less_eq_floatc_t NaN _ = False"
| "less_eq_floatc_t _ NaN = False"
| "less_eq_floatc_t MInf _ = True"
| "less_eq_floatc_t _ PInf = True"
| "less_eq_floatc_t _ MInf = False"
| "less_eq_floatc_t PInf _ = False"

instance ..

end

text \<open>\<^verbatim>\<open>std::isnan\<close>, \<^verbatim>\<open>fabsf\<close> and \<^verbatim>\<open>fcsquare\<close>.\<close>

fun isnan :: "floatc_t \<Rightarrow> bool" where
  "isnan NaN = True"
| "isnan _ = False"


definition fabsf :: "floatc_t \<Rightarrow> floatc_t" where
  "fabsf v = \<bar>v\<bar>"

definition fcsquare :: "floatc_t \<Rightarrow> floatc_t" where
  "fcsquare v = v * v"

section \<open>Data\<close>

text \<open>
  Modelled from the spec: the constant \<^verbatim>\<open>MaxLeadscrews\<close> is declared outside the sources
  at hand; the specification fixes it at 4 ("2 \<le> count \<le> 4 (MaxLeadscrews)").
\<close>

definition MaxLeadscrews :: nat where
  "MaxLeadscrews = 4"

definition M3ScrewPitch :: floatc_t where
  "M3ScrewPitch = Fin 0.5"

text \<open>
  \<^verbatim>\<open>KinematicsType\<close> is an enumeration of the base class; the code at hand tells
  \<^verbatim>\<open>coreXZ\<close> from all the others only.
\<close>

datatype KinematicsType = coreXZ | otherKinematics nat

text \<open>
  The object: the member arrays \<^verbatim>\<open>leadscrewX\<close>, \<^verbatim>\<open>leadscrewY\<close> and
  \<^verbatim>\<open>lastCorrections\<close> have \<^verbatim>\<open>MaxLeadscrews\<close> slots each, of which the first
  \<^verbatim>\<open>numLeadscrews\<close> are in use.
\<close>

record ZLeadscrewKinematics =
  kinematicsType :: KinematicsType
  leadscrewX :: "floatc_t list"
  leadscrewY :: "floatc_t list"
  lastCorrections :: "floatc_t list"
  numLeadscrews :: nat
  correctionFactor :: floatc_t
  maxCorrection :: floatc_t
  screwPitch :: floatc_t

text \<open>
  The constructors set the count and the three scalars and leave the arrays as they
  are found in memory, so their first contents are arguments here.
\<close>

definition ZLeadscrewKinematics_new ::
  "KinematicsType \<Rightarrow> floatc_t list \<Rightarrow> floatc_t list \<Rightarrow> floatc_t list \<Rightarrow> ZLeadscrewKinematics" where
  "ZLeadscrewKinematics_new k xs ys cs =
     \<lparr> kinematicsType = k, leadscrewX = xs, leadscrewY = ys, lastCorrections = cs,
       numLeadscrews = 0, correctionFactor = Fin 1.0, maxCorrection = Fin 1.0,
       screwPitch = M3ScrewPitch \<rparr>"

text \<open>
  \<^verbatim>\<open>Deviation\<close> is declared elsewhere in the firmware; a value of it is kept as the three
  arguments its \<^verbatim>\<open>Set\<close> was called with (the mean and the deviation from the mean are
  functions of them).
\<close>

record Deviation =
  devSumOfSquares :: floatc_t
  devSum :: floatc_t
  devNumPoints :: nat

definition Deviation_Set :: "floatc_t \<Rightarrow> floatc_t \<Rightarrow> nat \<Rightarrow> Deviation" where
  "Deviation_Set sumOfSquares sumOfValues numPoints =
     \<lparr> devSumOfSquares = sumOfSquares, devSum = sumOfValues, devNumPoints = numPoints \<rparr>"

text \<open>
  A reply buffer (\<^verbatim>\<open>StringRef\<close>) is kept as the sequence of its pieces: the literal text of
  the format strings, and each formatted argument: a floating-point value with the precision
  its format asks for, an unsigned count, or the mean or the deviation from the mean of a
  \<^verbatim>\<open>Deviation\<close> (its \<^verbatim>\<open>GetMean\<close> and \<^verbatim>\<open>GetDeviationFromMean\<close>), again with the precision.
  \<^verbatim>\<open>copy\<close> and \<^verbatim>\<open>printf\<close> replace the content, \<^verbatim>\<open>catf\<close> appends to it.
\<close>

datatype piece =
    Txt string
  | Flt nat floatc_t
  | UInt nat
  | FltMean nat Deviation
  | FltDeviationFromMean nat Deviation

type_synonym StringRef = "piece list"

text \<open>
  What the code reaches through the global \<^verbatim>\<open>reprap\<close>: the two calibration deviations of
  \<^verbatim>\<open>Move\<close> (the latest one with the number of factors it was computed for), the vectors
  \<^verbatim>\<open>Move::AdjustLeadscrews\<close> was called with, the number of \<^verbatim>\<open>MoveUpdated\<close> notifications
  and the messages sent to the platform, each in the order of the calls, and the number of
  drivers the platform has configured for the Z axis.
\<close>

record RepRap =
  initialCalibrationDeviation :: Deviation
  latestCalibrationDeviation :: "Deviation \<times> nat"
  adjustLeadscrewsCalls :: "floatc_t list list"
  moveUpdatedCalls :: nat
  platformMessages :: "StringRef list"
  zAxisNumDrivers :: nat

text \<open>
  A probe point: \<^verbatim>\<open>GetProbeCoordinates\<close> gives its position and returns its height,
  \<^verbatim>\<open>GetZHeight\<close> returns its height. The set that \<^verbatim>\<open>Move\<close> holds and the one passed to
  the calibration are the same.
\<close>

record ProbePoint =
  xBedProbePoint :: floatc_t
  yBedProbePoint :: floatc_t
  zBedProbePoint :: floatc_t

type_synonym RandomProbePointSet = "ProbePoint list"

definition NumberOfProbePoints :: "RandomProbePointSet \<Rightarrow> nat" where
  "NumberOfProbePoints probePoints = length probePoints"

definition GetZHeight :: "RandomProbePointSet \<Rightarrow> nat \<Rightarrow> floatc_t" where
  "GetZHeight probePoints i = zBedProbePoint (probePoints ! i)"

definition GetProbeCoordinates :: "RandomProbePointSet \<Rightarrow> nat \<Rightarrow> floatc_t \<times> floatc_t \<times> floatc_t" where
  "GetProbeCoordinates probePoints i =
     (zBedProbePoint (probePoints ! i), xBedProbePoint (probePoints ! i), yBedProbePoint (probePoints ! i))"

text \<open>
  A matrix is the list of the rows in use; \<open>m ! i ! j\<close> is the source's \<^verbatim>\<open>m(i, j)\<close>. The
  source declares its matrices and arrays with a fixed capacity and without initial values:
  a read of a slot that nothing was stored in (row 0 of the derivative matrix when there is no
  probe point) gives an indeterminate value there, and an unspecified one here.
\<close>

type_synonym FixedMatrix = "floatc_t list list"

section \<open>Auto calibration\<close>

text \<open>\<^verbatim>\<open>SupportsAutoCalibration\<close>: true if there are at least two leadscrews.\<close>

definition SupportsAutoCalibration :: "ZLeadscrewKinematics \<Rightarrow> bool" where
  "SupportsAutoCalibration s = (2 \<le> numLeadscrews s)"

text \<open>
  One row of the derivative matrix, for the probe point at \<open>(x, y)\<close>: the three cases of
  the \<^verbatim>\<open>switch\<close> on the number of factors. The switch has no default: for any other
  number nothing is stored in the row.
\<close>

definition derivatives2 :: "floatc_t list \<Rightarrow> floatc_t list \<Rightarrow> floatc_t \<Rightarrow> floatc_t \<Rightarrow> floatc_t list" where
  "derivatives2 lsX lsY x y =
     (let x0 = lsX ! 0; x1 = lsX ! 1;
          y0 = lsY ! 0; y1 = lsY ! 1;
          d2 = fcsquare (x1 - x0) + fcsquare (y1 - y0)
      in [ (- (fcsquare y1 - (y0 * y1) - (y * (y1 - y0)) + fcsquare x1 - (x0 * x1) - (x * (x1 - x0)))) / d2,
           (- (fcsquare y0 - (y0 * y1) + (y * (y1 - y0)) + fcsquare x0 - (x0 * x1) + (x * (x1 - x0)))) / d2 ])"

definition derivatives3 :: "floatc_t list \<Rightarrow> floatc_t list \<Rightarrow> floatc_t \<Rightarrow> floatc_t \<Rightarrow> floatc_t list" where
  "derivatives3 lsX lsY x y =
     (let x0 = lsX ! 0; x1 = lsX ! 1; x2 = lsX ! 2;
          y0 = lsY ! 0; y1 = lsY ! 1; y2 = lsY ! 2;
          d2 = x1 * y2 - x0 * y2 - x2 * y1 + x0 * y1 + x2 * y0 - x1 * y0
      in [ (- (x1 * y2 - x * y2 - x2 * y1 + x * y1 + x2 * y - x1 * y)) / d2,
           (x0 * y2 - x * y2 - x2 * y0 + x * y0 + x2 * y - x0 * y) / d2,
           (- (x0 * y1 - x * y1 - x1 * y0 + x * y0 + x1 * y - x0 * y)) / d2 ])"

definition derivatives4 :: "floatc_t list \<Rightarrow> floatc_t list \<Rightarrow> floatc_t \<Rightarrow> floatc_t \<Rightarrow> floatc_t list" where
  "derivatives4 lsX lsY x y =
     (let x0 = lsX ! 0; x1 = lsX ! 1; x2 = lsX ! 2; x3 = lsX ! 3;
          y0 = lsY ! 0; y1 = lsY ! 1; y2 = lsY ! 2; y3 = lsY ! 3;
          x01 = x0 * x1; x02 = x0 * x2; x03 = x0 * x3;
          x12 = x1 * x2; x13 = x1 * x3; x23 = x2 * x3;
          y01 = y0 * y1; y02 = y0 * y2; y03 = y0 * y3;
          y12 = y1 * y2; y13 = y1 * y3; y23 = y2 * y3;
          d2 =   x13 * y23 - x03 * y23 - x12 * y23 + x02 * y23 - x23 * y13 + x03 * y13 + x12 * y13 - x01 * y13
               + x23 * y03 - x13 * y03 - x02 * y03 + x01 * y03 + x23 * y12 - x13 * y12 - x02 * y12 + x01 * y12
               - x23 * y02 + x03 * y02 + x12 * y02 - x01 * y02 + x13 * y01 - x03 * y01 - x12 * y01 + x02 * y01;
          xx0 = x * x0; xx1 = x * x1; xx2 = x * x2; xx3 = x * x3;
          yy0 = y * y0; yy1 = y * y1; yy2 = y * y2; yy3 = y * y3
      in [ (- (  x13 * y23 - xx3 * y23 - x12 * y23 + xx2 * y23 - x23 * y13 + xx3 * y13 + x12 * y13 - xx1 * y13
               + x23 * yy3 - x13 * yy3 - xx2 * yy3 + xx1 * yy3 + x23 * y12 - x13 * y12 - xx2 * y12 + xx1 * y12
               - x23 * yy2 + xx3 * yy2 + x12 * yy2 - xx1 * yy2 + x13 * yy1 - xx3 * yy1 - x12 * yy1 + xx2 * yy1)) / d2,
           (     x03 * y23 - xx3 * y23 - x02 * y23 + xx2 * y23 - x23 * y03 + xx3 * y03 + x02 * y03 - xx0 * y03
               + x23 * yy3 - x03 * yy3 - xx2 * yy3 + xx0 * yy3 + x23 * y02 - x03 * y02 - xx2 * y02 + xx0 * y02
               - x23 * yy2 + xx3 * yy2 + x02 * yy2 - xx0 * yy2 + x03 * yy0 - xx3 * yy0 - x02 * yy0 + xx2 * yy0) / d2,
           (- (  x03 * y13 - xx3 * y13 - x01 * y13 + xx1 * y13 - x13 * y03 + xx3 * y03 + x01 * y03 - xx0 * y03
               + x13 * yy3 - x03 * yy3 - xx1 * yy3 + xx0 * yy3 + x13 * y01 - x03 * y01 - xx1 * y01 + xx0 * y01
               - x13 * yy1 + xx3 * yy1 + x01 * yy1 - xx0 * yy1 + x03 * yy0 - xx3 * yy0 - x01 * yy0 + xx1 * yy0)) / d2,
           (     x02 * y12 - xx2 * y12 - x01 * y12 + xx1 * y12 - x12 * y02 + xx2 * y02 + x01 * y02 - xx0 * y02
               + x12 * yy2 - x02 * yy2 - xx1 * yy2 + xx0 * yy2 + x12 * y01 - x02 * y01 - xx1 * y01 + xx0 * y01
               - x12 * yy1 + xx2 * yy1 + x01 * yy1 - xx0 * yy1 + x02 * yy0 - xx2 * yy0 - x01 * yy0 + xx1 * yy0) / d2 ])"

definition derivativeRow :: "nat \<Rightarrow> floatc_t list \<Rightarrow> floatc_t list \<Rightarrow> floatc_t \<Rightarrow> floatc_t \<Rightarrow> floatc_t list" where
  "derivativeRow numFactors lsX lsY x y =
     (if numFactors = 2 then derivatives2 lsX lsY x y
      else if numFactors = 3 then derivatives3 lsX lsY x y
      else if numFactors = 4 then derivatives4 lsX lsY x y
      else [])"

text \<open>
  The first loop over the probe points stores a row of derivatives for each point and adds
  up the probed heights and their squares.
\<close>

definition buildDerivativeMatrix :: "nat \<Rightarrow> ZLeadscrewKinematics \<Rightarrow> RandomProbePointSet \<Rightarrow> FixedMatrix" where
  "buildDerivativeMatrix numFactors s probePoints =
     map (\<lambda>i. case GetProbeCoordinates probePoints i of (zp, x, y) \<Rightarrow>
                 derivativeRow numFactors (leadscrewX s) (leadscrewY s) x y)
         [0..<NumberOfProbePoints probePoints]"

definition initialSum :: "RandomProbePointSet \<Rightarrow> floatc_t" where
  "initialSum probePoints =
     foldl (\<lambda>acc i. case GetProbeCoordinates probePoints i of (zp, x, y) \<Rightarrow> acc + zp)
           (Fin 0.0) [0..<NumberOfProbePoints probePoints]"

definition initialSumOfSquares :: "RandomProbePointSet \<Rightarrow> floatc_t" where
  "initialSumOfSquares probePoints =
     foldl (\<lambda>acc i. case GetProbeCoordinates probePoints i of (zp, x, y) \<Rightarrow> acc + fcsquare zp)
           (Fin 0.0) [0..<NumberOfProbePoints probePoints]"

text \<open>
  The normal equations: row \<open>i\<close> holds the products of column \<open>i\<close> of the derivative
  matrix with each of its columns, and with the negated heights in the last place. Each sum
  starts from the term of point 0 and adds the terms of the points from 1 on.
\<close>

definition buildNormalMatrix :: "nat \<Rightarrow> FixedMatrix \<Rightarrow> RandomProbePointSet \<Rightarrow> FixedMatrix" where
  "buildNormalMatrix numFactors derivativeMatrix probePoints =
     (let numPoints = NumberOfProbePoints probePoints in
      map (\<lambda>i.
             map (\<lambda>j. foldl (\<lambda>temp k. temp + derivativeMatrix ! k ! i * derivativeMatrix ! k ! j)
                            (derivativeMatrix ! 0 ! i * derivativeMatrix ! 0 ! j) [1..<numPoints])
                 [0..<numFactors]
             @ [foldl (\<lambda>temp k. temp + derivativeMatrix ! k ! i * - (GetZHeight probePoints k))
                      (derivativeMatrix ! 0 ! i * - (GetZHeight probePoints 0)) [1..<numPoints]])
          [0..<numFactors])"

text \<open>The solution is the last column of the solved matrix.\<close>

definition extractSolution :: "nat \<Rightarrow> FixedMatrix \<Rightarrow> floatc_t list" where
  "extractSolution numFactors normalMatrix = map (\<lambda>i. normalMatrix ! i ! numFactors) [0..<numFactors]"

text \<open>The residual of each point: its height plus the effect of the solution there.\<close>

definition computeResiduals :: "nat \<Rightarrow> FixedMatrix \<Rightarrow> RandomProbePointSet \<Rightarrow> floatc_t list \<Rightarrow> floatc_t list" where
  "computeResiduals numFactors derivativeMatrix probePoints solution =
     map (\<lambda>i. foldl (\<lambda>r j. r + solution ! j * derivativeMatrix ! i ! j)
                    (GetZHeight probePoints i) [0..<numFactors])
         [0..<NumberOfProbePoints probePoints]"

definition finalSum :: "floatc_t list \<Rightarrow> floatc_t" where
  "finalSum residuals = foldl (\<lambda>acc r. acc + r) (Fin 0.0) residuals"

definition finalSumOfSquares :: "floatc_t list \<Rightarrow> floatc_t" where
  "finalSumOfSquares residuals = foldl (\<lambda>acc r. acc + fcsquare r) (Fin 0.0) residuals"

text \<open>
  The check of the corrections: a NaN component raises \<open>haveNaN\<close> and stays as it is; any
  other component is multiplied by the correction factor in place, and raises
  \<open>haveLargeCorrection\<close> if its magnitude is then above the maximum. The result is
  \<open>(haveNaN, haveLargeCorrection, solution)\<close>.
\<close>

fun checkCorrections :: "floatc_t \<Rightarrow> floatc_t \<Rightarrow> floatc_t list \<Rightarrow> bool \<times> bool \<times> floatc_t list" where
  "checkCorrections cf mc [] = (False, False, [])"
| "checkCorrections cf mc (v # vs) =
     (case checkCorrections cf mc vs of (haveNaN, haveLargeCorrection, vs') \<Rightarrow>
        if isnan v then (True, haveLargeCorrection, v # vs')
        else (haveNaN, haveLargeCorrection \<or> mc < fabsf (v * cf), (v * cf) # vs'))"

text \<open>\<^verbatim>\<open>AppendCorrections\<close>: one value for each leadscrew, appended to the reply.\<close>

definition AppendCorrections :: "ZLeadscrewKinematics \<Rightarrow> floatc_t list \<Rightarrow> StringRef \<Rightarrow> StringRef" where
  "AppendCorrections s corrections reply =
     reply @ concat (map (\<lambda>i. [Txt '' '', Flt 3 (corrections ! i)]) [0..<numLeadscrews s])"

text \<open>Storing values into the first \<open>n\<close> slots of an array, slot by slot.\<close>

definition storeFirst :: "nat \<Rightarrow> (nat \<Rightarrow> floatc_t) \<Rightarrow> floatc_t list \<Rightarrow> floatc_t list" where
  "storeFirst n f arr = foldl (\<lambda>a i. a[i := f i]) arr [0..<n]"

definition manualCorrectionText :: "ZLeadscrewKinematics \<Rightarrow> floatc_t \<Rightarrow> StringRef" where
  "manualCorrectionText s netAdjustment =
     [Txt '' '', Flt 2 (fabsf netAdjustment / screwPitch s), Txt '' turn '',
      Txt (if Fin 0 < netAdjustment then ''down'' else ''up''),
      Txt '' ('', Flt 2 netAdjustment, Txt ''mm)'']"

text \<open>
  \<^verbatim>\<open>DoAutoCalibration\<close>, returning true if failed. The result is the returned flag, the
  object, the environment and the reply after the call. \<^verbatim>\<open>FixedMatrix::GaussJordan\<close> is
  the argument \<open>gaussJordan\<close>: it takes the matrix and the numbers of rows and columns and
  gives its result and the matrix as it has left it. The local array \<^verbatim>\<open>solution\<close> is the
  list of its first \<open>numFactors\<close> entries, the ones that are written. The debug printing of
  the matrices is left out. The message sent to the platform at the end is the reply followed
  by a newline.
\<close>

definition DoAutoCalibration ::
  "(FixedMatrix \<Rightarrow> nat \<Rightarrow> nat \<Rightarrow> bool \<times> FixedMatrix) \<Rightarrow> nat \<Rightarrow> RandomProbePointSet \<Rightarrow>
   ZLeadscrewKinematics \<Rightarrow> RepRap \<Rightarrow> StringRef \<Rightarrow> bool \<times> ZLeadscrewKinematics \<times> RepRap \<times> StringRef" where
  "DoAutoCalibration gaussJordan numFactors probePoints s reprap reply =
     (if \<not> SupportsAutoCalibration s then (False, s, reprap, reply)
      else if numFactors \<noteq> numLeadscrews s then
        (True, s, reprap,
         [Txt ''Number of calibration factors ('', UInt numFactors,
          Txt '') not equal to number of leadscrews ('', UInt (numLeadscrews s), Txt '')''])
      else
        let numPoints = NumberOfProbePoints probePoints;
            derivativeMatrix = buildDerivativeMatrix numFactors s probePoints;
            initialDeviation =
              Deviation_Set (initialSumOfSquares probePoints) (initialSum probePoints) numPoints;
            reprap1 = reprap\<lparr> initialCalibrationDeviation := initialDeviation,
                              latestCalibrationDeviation := (initialDeviation, 0) \<rparr>;
            normalMatrix = buildNormalMatrix numFactors derivativeMatrix probePoints
        in case gaussJordan normalMatrix numFactors (numFactors + 1) of
             (False, _) \<Rightarrow>
               (True, s, reprap1,
                [Txt ''Unable to calculate screw corrections. Please choose different probe points.''])
           | (True, solved) \<Rightarrow>
               let residuals =
                     computeResiduals numFactors derivativeMatrix probePoints
                       (extractSolution numFactors solved);
                   finalDeviation =
                     Deviation_Set (finalSumOfSquares residuals) (finalSum residuals) numPoints
               in case checkCorrections (correctionFactor s) (maxCorrection s)
                         (extractSolution numFactors solved) of
                    (haveNaN, haveLargeCorrection, solution) \<Rightarrow>
                      (case
                         (if haveNaN then
                            (True, s, reprap1,
                             AppendCorrections s solution
                               [Txt ''Calibration failed, computed corrections:''])
                          else if zAxisNumDrivers reprap1 = numLeadscrews s then
                            (if haveLargeCorrection then
                               (True, s, reprap1,
                                AppendCorrections s solution
                                  [Txt ''Some computed corrections exceed configured limit of '',
                                   Flt 2 (maxCorrection s), Txt ''mm:''])
                             else
                               (False,
                                s\<lparr> lastCorrections :=
                                     storeFirst (numLeadscrews s) (\<lambda>i. solution ! i) (lastCorrections s) \<rparr>,
                                reprap1\<lparr> adjustLeadscrewsCalls := adjustLeadscrewsCalls reprap1 @ [solution],
                                         latestCalibrationDeviation := (finalDeviation, numFactors) \<rparr>,
                                AppendCorrections s solution [Txt ''Leadscrew adjustments made:'']
                                @ [Txt '', points used '', UInt numPoints,
                                   Txt '', (mean, deviation) before ('',
                                   FltMean 3 initialDeviation, Txt '', '',
                                   FltDeviationFromMean 3 initialDeviation, Txt '') after ('',
                                   FltMean 3 finalDeviation, Txt '', '',
                                   FltDeviationFromMean 3 finalDeviation, Txt '')'']))
                          else
                            (False,
                             s\<lparr> lastCorrections :=
                                  storeFirst (numLeadscrews s) (\<lambda>i. solution ! i - solution ! 0)
                                    (lastCorrections s) \<rparr>,
                             reprap1,
                             [Txt ''Manual corrections required:'']
                             @ concat (map (\<lambda>i. manualCorrectionText s (solution ! i - solution ! 0))
                                           [0..<numLeadscrews s])))
                       of (failed, s', reprap2, reply') \<Rightarrow>
                         (failed, s',
                          reprap2\<lparr> platformMessages := platformMessages reprap2 @ [reply'] \<rparr>,
                          reply')))"

section \<open>The linear solver\<close>

text \<open>
  Modelled from the spec: \<^verbatim>\<open>FixedMatrix::GaussJordan\<close> is code of the firmware that is not
  among the sources at hand. The specification describes it as Gauss-Jordan elimination with
  partial pivoting on a \<open>numRows \<times> numCols\<close> augmented matrix, in place, the result in the
  trailing columns; it "selects the largest-magnitude entry in the working column" and "fails
  (returns false, leaving the matrix in an indeterminate partially-reduced state) when no
  usable pivot exists". Here, for each column \<open>i\<close> in turn: the rows below \<open>i\<close> are searched
  for a larger magnitude in column \<open>i\<close> and swapped up; a pivot equal to zero fails (the
  specification's "zero or near-zero" is taken as exactly zero); row \<open>i\<close> is used to clear
  column \<open>i\<close> in every other row. At the end each row is divided by its diagonal element.
\<close>

definition SwapRows :: "FixedMatrix \<Rightarrow> nat \<Rightarrow> nat \<Rightarrow> FixedMatrix" where
  "SwapRows m i j = m[i := m ! j, j := m ! i]"

definition selectPivot :: "nat \<Rightarrow> nat \<Rightarrow> FixedMatrix \<Rightarrow> FixedMatrix" where
  "selectPivot numRows i m =
     fst (foldl (\<lambda>(m', vmax) j.
                   let rmax = fabsf (m' ! j ! i)
                   in if vmax < rmax then (SwapRows m' i j, rmax) else (m', vmax))
                (m, fabsf (m ! i ! i)) [i + 1..<numRows])"

definition eliminateRow :: "nat \<Rightarrow> nat \<Rightarrow> FixedMatrix \<Rightarrow> nat \<Rightarrow> FixedMatrix" where
  "eliminateRow numCols i m j =
     (let factor = m ! j ! i / m ! i ! i
      in m[j := foldl (\<lambda>row k. row[k := row ! k - m ! i ! k * factor])
                      ((m ! j)[i := Fin 0.0]) [i + 1..<numCols]])"

definition gaussJordanColumn :: "nat \<Rightarrow> nat \<Rightarrow> bool \<times> FixedMatrix \<Rightarrow> nat \<Rightarrow> bool \<times> FixedMatrix" where
  "gaussJordanColumn numRows numCols st i =
     (case st of
        (False, m) \<Rightarrow> (False, m)
      | (True, m) \<Rightarrow>
          let m1 = selectPivot numRows i m
          in if m1 ! i ! i = Fin 0.0 then (False, m1)
             else (True, foldl (eliminateRow numCols i) m1 ([0..<i] @ [i + 1..<numRows])))"

definition normaliseRow :: "nat \<Rightarrow> nat \<Rightarrow> FixedMatrix \<Rightarrow> nat \<Rightarrow> FixedMatrix" where
  "normaliseRow numRows numCols m r =
     (let val = m ! r ! r
      in m[r := (foldl (\<lambda>row c. row[c := row ! c / val]) (m ! r) [numRows..<numCols])[r := Fin 1.0]])"

definition GaussJordan :: "FixedMatrix \<Rightarrow> nat \<Rightarrow> nat \<Rightarrow> bool \<times> FixedMatrix" where
  "GaussJordan m numRows numCols =
     (case foldl (gaussJordanColumn numRows numCols) (True, m) [0..<numRows] of
        (False, m') \<Rightarrow> (False, m')
      | (True, m') \<Rightarrow> (True, foldl (normaliseRow numRows numCols) m' [0..<numRows]))"

section \<open>Configuration\<close>

text \<open>
  The parameters of a G-code command as the buffer gives them: the lists after \<^verbatim>\<open>X\<close> and
  \<^verbatim>\<open>Y\<close> and the values after \<^verbatim>\<open>S\<close>, \<^verbatim>\<open>P\<close> and \<^verbatim>\<open>F\<close>, each if the letter is seen.
\<close>

record GCodeBuffer =
  paramX :: "floatc_t list option"
  paramY :: "floatc_t list option"
  paramS :: "floatc_t option"
  paramP :: "floatc_t option"
  paramF :: "floatc_t option"

datatype GCodeException = ArrayTooLong

text \<open>
  Modelled from the spec: \<^verbatim>\<open>GCodeBuffer::GetFloatArray\<close> and \<^verbatim>\<open>GCodeBuffer::TryGetFValue\<close>
  are code of the firmware that is not among the sources at hand; the specification speaks of
  "paired X/Y arrays" of at most \<^verbatim>\<open>MaxLeadscrews\<close> positions and of setting pitch, correction
  factor and maximum correction. What they do is taken from their calls:
  \<^verbatim>\<open>GetFloatArray(arr, length, false)\<close> stores the values of the parameter into \<open>arr\<close> from
  slot 0 on and sets \<open>length\<close>, which holds the capacity before the call, to their number;
  with more values than the capacity it throws, the slots up to the capacity being written
  by then. \<^verbatim>\<open>TryGetFValue(c, val, seen)\<close> stores the value of the parameter into \<open>val\<close> and
  sets \<open>seen\<close> if the letter is seen, and leaves both alone if not.
\<close>

definition GetFloatArray :: "floatc_t list \<Rightarrow> floatc_t list \<Rightarrow> nat \<Rightarrow> (GCodeException + nat) \<times> floatc_t list" where
  "GetFloatArray vs arr maxLength =
     (if maxLength < length vs then (Inl ArrayTooLong, storeFirst maxLength (\<lambda>i. vs ! i) arr)
      else (Inr (length vs), storeFirst (length vs) (\<lambda>i. vs ! i) arr))"

definition TryGetFValue :: "floatc_t option \<Rightarrow> floatc_t \<Rightarrow> bool \<Rightarrow> floatc_t \<times> bool" where
  "TryGetFValue param val seen = (case param of None \<Rightarrow> (val, seen) | Some v \<Rightarrow> (v, True))"

text \<open>
  \<^verbatim>\<open>Configure\<close>. The result is what the call returns or throws, then the object, the
  environment, the reply and the \<open>error\<close> flag after the call. \<^verbatim>\<open>Kinematics::Configure\<close> of
  the base class, which takes every command other than M671, is the argument
  \<open>baseConfigure\<close>.
\<close>

definition Configure ::
  "(nat \<Rightarrow> GCodeBuffer \<Rightarrow> StringRef \<Rightarrow> bool \<Rightarrow> (GCodeException + bool) \<times> StringRef \<times> bool) \<Rightarrow>
   nat \<Rightarrow> GCodeBuffer \<Rightarrow> ZLeadscrewKinematics \<Rightarrow> RepRap \<Rightarrow> StringRef \<Rightarrow> bool \<Rightarrow>
   (GCodeException + bool) \<times> ZLeadscrewKinematics \<times> RepRap \<times> StringRef \<times> bool" where
  "Configure baseConfigure mCode gb s reprap reply error =
     (if mCode = 671 \<and> kinematicsType s \<noteq> coreXZ then
        case (case paramX gb of
                None \<Rightarrow> (Inr MaxLeadscrews, leadscrewX s, False)
              | Some vs \<Rightarrow> (case GetFloatArray vs (leadscrewX s) MaxLeadscrews of
                             (r, arr) \<Rightarrow> (r, arr, True))) of
          (Inl e, arrX, seenX) \<Rightarrow> (Inl e, s\<lparr> leadscrewX := arrX \<rparr>, reprap, reply, error)
        | (Inr xSize, arrX, seenX) \<Rightarrow>
            (case (case paramY gb of
                     None \<Rightarrow> (Inr MaxLeadscrews, leadscrewY s, False)
                   | Some vs \<Rightarrow> (case GetFloatArray vs (leadscrewY s) MaxLeadscrews of
                                  (r, arr) \<Rightarrow> (r, arr, True))) of
               (Inl e, arrY, seenY) \<Rightarrow>
                 (Inl e, s\<lparr> leadscrewX := arrX, leadscrewY := arrY \<rparr>, reprap, reply, error)
             | (Inr ySize, arrY, seenY) \<Rightarrow>
                 (case TryGetFValue (paramS gb) (maxCorrection s) False of (mc, seenS) \<Rightarrow>
                  case TryGetFValue (paramP gb) (screwPitch s) seenS of (sp, seenPS) \<Rightarrow>
                  case TryGetFValue (paramF gb) (correctionFactor s) seenPS of (cf, seenPFS) \<Rightarrow>
                    let s1 = s\<lparr> leadscrewX := arrX, leadscrewY := arrY,
                               maxCorrection := mc, screwPitch := sp, correctionFactor := cf \<rparr>
                    in if seenX \<and> seenY \<and> xSize = ySize then
                         (Inr False,
                          s1\<lparr> lastCorrections := map (\<lambda>v. Fin 0.0) (lastCorrections s1),
                              numLeadscrews := xSize \<rparr>,
                          reprap\<lparr> moveUpdatedCalls := Suc (moveUpdatedCalls reprap) \<rparr>, reply, error)
                       else if seenX \<or> seenY then
                         (Inr True, s1, reprap,
                          [Txt ''Specify 1, 2, 3 or 4 X and Y coordinates in M671''], error)
                       else if seenPFS then
                         (Inr True, s1,
                          reprap\<lparr> moveUpdatedCalls := Suc (moveUpdatedCalls reprap) \<rparr>, reply, error)
                       else if numLeadscrews s1 < 2 then
                         (Inr False, s1, reprap,
                          [Txt ''Z leadscrew coordinates are not configured''], error)
                       else
                         (Inr False, s1, reprap,
                          [Txt ''Z leadscrew coordinates'']
                          @ concat (map (\<lambda>i. [Txt '' ('', Flt 1 (leadscrewX s1 ! i), Txt '','',
                                              Flt 1 (leadscrewY s1 ! i), Txt '')''])
                                        [0..<numLeadscrews s1])
                          @ [Txt '', factor '', Flt 2 (correctionFactor s1),
                             Txt '', maximum correction '', Flt 2 (maxCorrection s1),
                             Txt ''mm, manual adjusting screw pitch '', Flt 2 (screwPitch s1),
                             Txt ''mm''], error)))
      else
        case baseConfigure mCode gb reply error of
          (r, reply', error') \<Rightarrow> (r, s, reprap, reply', error'))"

section \<open>Example configurations\<close>

text \<open>
  An environment in which nothing has happened yet, with the given number of Z drivers; a
  freshly constructed object whose arrays hold zeros; the same object with one leadscrew; an
  object with two leadscrews at \<open>(0, 0)\<close> and \<open>(x1, 0)\<close> and a given correction factor; an
  object with the three leadscrews of the specification's example.
\<close>

definition idleRepRap :: "nat \<Rightarrow> RepRap" where
  "idleRepRap numDrivers =
     \<lparr> initialCalibrationDeviation = Deviation_Set (Fin 0) (Fin 0) 0,
       latestCalibrationDeviation = (Deviation_Set (Fin 0) (Fin 0) 0, 0),
       adjustLeadscrewsCalls = [], moveUpdatedCalls = 0, platformMessages = [],
       zAxisNumDrivers = numDrivers \<rparr>"

definition newObject :: ZLeadscrewKinematics where
  "newObject = ZLeadscrewKinematics_new (otherKinematics 0)
     [Fin 0, Fin 0, Fin 0, Fin 0] [Fin 0, Fin 0, Fin 0, Fin 0] [Fin 0, Fin 0, Fin 0, Fin 0]"

definition oneScrew :: ZLeadscrewKinematics where
  "oneScrew = newObject \<lparr> leadscrewX := [Fin 10, Fin 0, Fin 0, Fin 0],
     leadscrewY := [Fin 10, Fin 0, Fin 0, Fin 0], numLeadscrews := 1 \<rparr>"

definition twoScrews :: "real \<Rightarrow> real \<Rightarrow> ZLeadscrewKinematics" where
  "twoScrews x1 cf = newObject \<lparr> leadscrewX := [Fin 0, Fin x1, Fin 0, Fin 0], numLeadscrews := 2,
     correctionFactor := Fin cf \<rparr>"


text \<open>
  Probe points: two at the leadscrews of \<open>twoScrews 100\<close> with heights 4 and -4, and three
  at the leadscrews of \<open>threeScrews\<close> with the heights of the specification's example.
\<close>

definition twoProbes :: RandomProbePointSet where
  "twoProbes = [\<lparr> xBedProbePoint = Fin 0, yBedProbePoint = Fin 0, zBedProbePoint = Fin 4 \<rparr>,
                \<lparr> xBedProbePoint = Fin 100, yBedProbePoint = Fin 0, zBedProbePoint = Fin (- 4) \<rparr>]"

definition threeProbes :: RandomProbePointSet where
  "threeProbes = [\<lparr> xBedProbePoint = Fin 0, yBedProbePoint = Fin 0, zBedProbePoint = Fin 0.10 \<rparr>,
                  \<lparr> xBedProbePoint = Fin 200, yBedProbePoint = Fin 0, zBedProbePoint = Fin (- 0.05) \<rparr>,
                  \<lparr> xBedProbePoint = Fin 100, yBedProbePoint = Fin 200, zBedProbePoint = Fin 0.00 \<rparr>]"

text \<open>
  An M671 command with the given \<^verbatim>\<open>X\<close>, \<^verbatim>\<open>Y\<close> and \<^verbatim>\<open>S\<close> parameters and no other, and a
  base class that takes no command.
\<close>

definition m671 :: "floatc_t list option \<Rightarrow> floatc_t list option \<Rightarrow> floatc_t option \<Rightarrow> GCodeBuffer" where
  "m671 xs ys mc = \<lparr> paramX = xs, paramY = ys, paramS = mc, paramP = None, paramF = None \<rparr>"

definition noBaseConfigure ::
  "nat \<Rightarrow> GCodeBuffer \<Rightarrow> StringRef \<Rightarrow> bool \<Rightarrow> (GCodeException + bool) \<times> StringRef \<times> bool" where
  "noBaseConfigure mCode gb reply error = (Inr False, reply, error)"

section \<open>Auxiliary facts\<close>









lemma storeFirst_0: "storeFirst 0 f arr = arr"
  by (simp add: storeFirst_def)

lemma storeFirst_Suc: "storeFirst (Suc n) f arr = (storeFirst n f arr)[n := f n]"
  by (simp add: storeFirst_def)

lemma length_storeFirst [simp]: "length (storeFirst n f arr) = length arr"
  by (induction n) (simp_all add: storeFirst_Suc storeFirst_0)

lemma nth_storeFirst:
  "i < length arr \<Longrightarrow> storeFirst n f arr ! i = (if i < n then f i else arr ! i)"
  by (induction n) (auto simp: storeFirst_Suc storeFirst_0 nth_list_update less_Suc_eq)


lemma length_extractSolution [simp]: "length (extractSolution n m) = n"
  by (simp add: extractSolution_def)


lemma GetFloatArray_ok:
  "length vs \<le> n \<Longrightarrow>
   GetFloatArray vs arr n = (Inr (length vs), storeFirst (length vs) (\<lambda>i. vs ! i) arr)"
  by (simp add: GetFloatArray_def)

lemma GetFloatArray_cases:
  "GetFloatArray vs arr n = (r, arr') \<Longrightarrow>
     length arr' = length arr \<and>
     (r = Inl ArrayTooLong \<and> n < length vs \<or> r = Inr (length vs) \<and> length vs \<le> n)"
  by (auto simp: GetFloatArray_def split: if_splits)

text \<open>The example runs, evaluated.\<close>

lemma twoScrews_supported: "SupportsAutoCalibration (twoScrews x1 cf)"
  by (simp add: SupportsAutoCalibration_def twoScrews_def)

lemma twoScrews_count: "2 = numLeadscrews (twoScrews x1 cf)"
  by (simp add: twoScrews_def)


lemma solve_oneProbe:
  "fst (GaussJordan (buildNormalMatrix 2 (buildDerivativeMatrix 2 (twoScrews 100 0.5) (take 1 twoProbes))
          (take 1 twoProbes)) 2 (2 + 1)) = False"
  by code_simp





section \<open>Calibration requests that are not run\<close>

text \<open>
  C7, as stated, fails. With one leadscrew configured (fewer than two) a calibration request
  returns false, which is the value for "not failed", and the reply is left as it was:
  there is neither a failure flag nor a message.
\<close>

theorem unsupported_counterexample:
  "numLeadscrews oneScrew < 2 \<and>
   DoAutoCalibration GaussJordan 1 twoProbes oneScrew (idleRepRap 1) [] =
     (False, oneScrew, idleRepRap 1, [])"
  by (simp add: DoAutoCalibration_def SupportsAutoCalibration_def oneScrew_def)

text \<open>
  C7, amended: for every call made while fewer than two leadscrews are configured, the call
  returns before any computation (whatever the factor count, the probe points and the solver
  are), the object, the environment and the reply are left unchanged, and the call returns
  false: the condition is not surfaced by this function, neither as a message nor as a
  failure flag.
\<close>

theorem unsupported_returns_silently:
  assumes "numLeadscrews s < 2"
  shows "DoAutoCalibration gaussJordan numFactors probePoints s reprap reply = (False, s, reprap, reply)"
  using assms by (simp add: DoAutoCalibration_def SupportsAutoCalibration_def)

text \<open>C7, amended, at the freshly constructed object.\<close>

theorem unsupported_returns_silently_witness:
  "DoAutoCalibration GaussJordan 3 threeProbes newObject (idleRepRap 3) [Txt ''ok''] =
     (False, newObject, idleRepRap 3, [Txt ''ok''])"
proof -
  have h: "numLeadscrews newObject < 2"
    by (simp add: newObject_def ZLeadscrewKinematics_new_def)
  show ?thesis
    by (rule unsupported_returns_silently [OF h])
qed

text \<open>
  C6, as stated, fails. For the freshly constructed object (no leadscrew configured) a
  request with three factors differs in its factor count, and it returns false with the reply
  left as it was, because the test for at least two leadscrews comes first.
\<close>

theorem factor_mismatch_counterexample:
  "3 \<noteq> numLeadscrews newObject \<and>
   DoAutoCalibration GaussJordan 3 threeProbes newObject (idleRepRap 3) [] =
     (False, newObject, idleRepRap 3, [])"
  by (simp add: DoAutoCalibration_def SupportsAutoCalibration_def newObject_def
        ZLeadscrewKinematics_new_def)

text \<open>
  C6, amended: for every call where at least two leadscrews are configured and the requested
  number of factors differs from the number of configured leadscrews, the run is rejected
  with the failure flag and a message naming both numbers, before any matrix is computed
  (whatever the probe points and the solver are), and the object and the environment are
  left unchanged.
\<close>

theorem factor_mismatch_rejected:
  assumes "2 \<le> numLeadscrews s" and "numFactors \<noteq> numLeadscrews s"
  shows "DoAutoCalibration gaussJordan numFactors probePoints s reprap reply =
     (True, s, reprap,
      [Txt ''Number of calibration factors ('', UInt numFactors,
       Txt '') not equal to number of leadscrews ('', UInt (numLeadscrews s), Txt '')''])"
  using assms by (simp add: DoAutoCalibration_def SupportsAutoCalibration_def)

text \<open>C6, amended, at three factors requested for two leadscrews.\<close>

theorem factor_mismatch_rejected_witness:
  "DoAutoCalibration GaussJordan 3 threeProbes (twoScrews 100 0.5) (idleRepRap 2) [] =
     (True, twoScrews 100 0.5, idleRepRap 2,
      [Txt ''Number of calibration factors ('', UInt 3,
       Txt '') not equal to number of leadscrews ('', UInt 2, Txt '')''])"
proof -
  have h1: "2 \<le> numLeadscrews (twoScrews 100 0.5)"
    by (simp add: twoScrews_def)
  have h2: "3 \<noteq> numLeadscrews (twoScrews 100 0.5)"
    by (simp add: twoScrews_def)
  have n: "numLeadscrews (twoScrews 100 0.5) = 2"
    by (simp add: twoScrews_def)
  show ?thesis
    using factor_mismatch_rejected [OF h1 h2, of GaussJordan threeProbes "idleRepRap 2" "[]"]
    by (simp only: n)
qed

section \<open>The outcome of a run\<close>

text \<open>
  C2: for every calibration run in which the solve of the normal equations fails, the call
  returns the failure flag with the message that the corrections cannot be calculated, the
  object is unchanged, \<^verbatim>\<open>AdjustLeadscrews\<close> is not called and no message is sent to the
  platform. The solver is arbitrary here.
\<close>

theorem solver_failure_reported:
  assumes "SupportsAutoCalibration s" and "numFactors = numLeadscrews s"
    and "fst (gaussJordan
                (buildNormalMatrix numFactors (buildDerivativeMatrix numFactors s probePoints) probePoints)
                numFactors (numFactors + 1)) = False"
  shows "\<exists>reprap'. DoAutoCalibration gaussJordan numFactors probePoints s reprap reply =
            (True, s, reprap',
             [Txt ''Unable to calculate screw corrections. Please choose different probe points.''])
          \<and> adjustLeadscrewsCalls reprap' = adjustLeadscrewsCalls reprap
          \<and> platformMessages reprap' = platformMessages reprap"
  using assms by (auto simp: DoAutoCalibration_def Let_def split: prod.splits bool.splits)

text \<open>
  C2 at two leadscrews and a single probe point: the normal equations are singular and the
  elimination finds a zero pivot.
\<close>

theorem solver_failure_reported_witness:
  "\<exists>reprap'. DoAutoCalibration GaussJordan 2 (take 1 twoProbes) (twoScrews 100 0.5) (idleRepRap 2) [] =
            (True, twoScrews 100 0.5, reprap',
             [Txt ''Unable to calculate screw corrections. Please choose different probe points.''])
          \<and> adjustLeadscrewsCalls reprap' = []
          \<and> platformMessages reprap' = []"
  using solver_failure_reported [where s = "twoScrews 100 0.5" and numFactors = 2
      and gaussJordan = GaussJordan and probePoints = "take 1 twoProbes" and reprap = "idleRepRap 2"
      and reply = "[]", OF twoScrews_supported twoScrews_count solve_oneProbe]
  by (simp add: idleRepRap_def)








section \<open>Reconfiguration\<close>

text \<open>Two example commands, evaluated.\<close>

lemma run_mismatched:
  "Configure noBaseConfigure 671 (m671 (Some [Fin 10, Fin 20, Fin 30]) (Some [Fin 5, Fin 6]) (Some (Fin 5)))
     newObject (idleRepRap 2) [] False =
   (Inr True,
    newObject \<lparr> leadscrewX := [Fin 10, Fin 20, Fin 30, Fin 0], leadscrewY := [Fin 5, Fin 6, Fin 0, Fin 0],
                maxCorrection := Fin 5 \<rparr>,
    idleRepRap 2, [Txt ''Specify 1, 2, 3 or 4 X and Y coordinates in M671''], False)"
  by code_simp

lemma run_single:
  "Configure noBaseConfigure 671 (m671 (Some [Fin 10]) (Some [Fin 10]) None)
     newObject (idleRepRap 2) [] False =
   (Inr False, oneScrew, (idleRepRap 2) \<lparr> moveUpdatedCalls := 1 \<rparr>, [], False)"
  by code_simp

text \<open>
  C8, as stated, fails. The command \<^verbatim>\<open>M671 X10:20:30 Y5:6 S5\<close> on the freshly constructed
  object has three X and two Y coordinates; it is answered with the error text, and yet the
  object then holds the new X and Y values and the new maximum correction: the parameters are
  read into the members before the counts are compared.
\<close>

theorem mismatched_positions_counterexample:
  "leadscrewX newObject = [Fin 0, Fin 0, Fin 0, Fin 0] \<and> maxCorrection newObject = Fin 1 \<and>
   Configure noBaseConfigure 671 (m671 (Some [Fin 10, Fin 20, Fin 30]) (Some [Fin 5, Fin 6]) (Some (Fin 5)))
     newObject (idleRepRap 2) [] False =
   (Inr True,
    newObject \<lparr> leadscrewX := [Fin 10, Fin 20, Fin 30, Fin 0], leadscrewY := [Fin 5, Fin 6, Fin 0, Fin 0],
                maxCorrection := Fin 5 \<rparr>,
    idleRepRap 2, [Txt ''Specify 1, 2, 3 or 4 X and Y coordinates in M671''], False)"
  by code_simp

text \<open>
  C8, amended: for every M671 call (on a kinematics other than CoreXZ) in which the X and Y
  lists have unequal lengths or only one of the two is supplied, the call is rejected: it
  returns true with the text "Specify 1, 2, 3 or 4 X and Y coordinates in M671" as the reply,
  or it throws because a list has more than \<^verbatim>\<open>MaxLeadscrews\<close> values. The leadscrew count and
  the last corrections retain their prior values. The X positions, the Y positions, the
  maximum correction, the screw pitch and the correction factor retain their prior values
  when the call has no X, Y, S, P or F parameter respectively.
\<close>

theorem mismatched_positions_rejected:
  assumes "mCode = 671" and "kinematicsType s \<noteq> coreXZ"
    and "paramX gb \<noteq> None \<or> paramY gb \<noteq> None"
    and "\<not> (\<exists>xs ys. paramX gb = Some xs \<and> paramY gb = Some ys \<and> length xs = length ys)"
    and "Configure baseConfigure mCode gb s reprap reply error = (r, s', reprap', reply', error')"
  shows "(r = Inr True \<and> reply' = [Txt ''Specify 1, 2, 3 or 4 X and Y coordinates in M671'']
          \<or> r = Inl ArrayTooLong \<and> reply' = reply)
       \<and> numLeadscrews s' = numLeadscrews s
       \<and> lastCorrections s' = lastCorrections s
       \<and> (paramX gb = None \<longrightarrow> leadscrewX s' = leadscrewX s)
       \<and> (paramY gb = None \<longrightarrow> leadscrewY s' = leadscrewY s)
       \<and> (paramS gb = None \<longrightarrow> maxCorrection s' = maxCorrection s)
       \<and> (paramP gb = None \<longrightarrow> screwPitch s' = screwPitch s)
       \<and> (paramF gb = None \<longrightarrow> correctionFactor s' = correctionFactor s)"
  using assms
  by (auto simp: Configure_def Let_def TryGetFValue_def MaxLeadscrews_def
        split: if_splits prod.splits option.splits sum.splits
        dest!: GetFloatArray_cases)

text \<open>C8, amended, at the same call.\<close>

theorem mismatched_positions_rejected_witness:
  "numLeadscrews (newObject \<lparr> leadscrewX := [Fin 10, Fin 20, Fin 30, Fin 0],
                              leadscrewY := [Fin 5, Fin 6, Fin 0, Fin 0], maxCorrection := Fin 5 \<rparr>)
     = numLeadscrews newObject
   \<and> lastCorrections (newObject \<lparr> leadscrewX := [Fin 10, Fin 20, Fin 30, Fin 0],
                              leadscrewY := [Fin 5, Fin 6, Fin 0, Fin 0], maxCorrection := Fin 5 \<rparr>)
     = lastCorrections newObject
   \<and> screwPitch (newObject \<lparr> leadscrewX := [Fin 10, Fin 20, Fin 30, Fin 0],
                              leadscrewY := [Fin 5, Fin 6, Fin 0, Fin 0], maxCorrection := Fin 5 \<rparr>)
     = screwPitch newObject"
proof -
  have h1: "(671 :: nat) = 671"
    by simp
  have h2: "kinematicsType newObject \<noteq> coreXZ"
    by (simp add: newObject_def ZLeadscrewKinematics_new_def)
  have h3: "paramX (m671 (Some [Fin 10, Fin 20, Fin 30]) (Some [Fin 5, Fin 6]) (Some (Fin 5))) \<noteq> None
          \<or> paramY (m671 (Some [Fin 10, Fin 20, Fin 30]) (Some [Fin 5, Fin 6]) (Some (Fin 5))) \<noteq> None"
    by (simp add: m671_def)
  have h4: "\<not> (\<exists>xs ys. paramX (m671 (Some [Fin 10, Fin 20, Fin 30]) (Some [Fin 5, Fin 6]) (Some (Fin 5))) = Some xs
              \<and> paramY (m671 (Some [Fin 10, Fin 20, Fin 30]) (Some [Fin 5, Fin 6]) (Some (Fin 5))) = Some ys
              \<and> length xs = length ys)"
    by (simp add: m671_def)
  show ?thesis
    using mismatched_positions_rejected [OF h1 h2 h3 h4 run_mismatched]
    by (simp add: m671_def)
qed

text \<open>
  C9, as stated, fails. The command \<^verbatim>\<open>M671 X10 Y10\<close> on the freshly constructed object is
  accepted and leaves a leadscrew count of exactly 1.
\<close>

theorem single_leadscrew_counterexample:
  "numLeadscrews (fst (snd (Configure noBaseConfigure 671 (m671 (Some [Fin 10]) (Some [Fin 10]) None)
                              newObject (idleRepRap 2) [] False))) = 1"
  by code_simp

text \<open>
  C9, amended: after every Configure operation on an object whose leadscrew count is at most
  \<^verbatim>\<open>MaxLeadscrews\<close>, however the call ends, the stored count is at most \<^verbatim>\<open>MaxLeadscrews\<close>
  (4): it is the count before the call, or it is the common length, from 0 to 4 and 1
  included, of the X and Y lists of the call. The X and the Y positions share this one count,
  and both arrays keep their size.
\<close>

theorem leadscrew_count_bounded:
  assumes "numLeadscrews s \<le> MaxLeadscrews"
    and "Configure baseConfigure mCode gb s reprap reply error = (r, s', reprap', reply', error')"
  shows "numLeadscrews s' \<le> MaxLeadscrews
       \<and> length (leadscrewX s') = length (leadscrewX s)
       \<and> length (leadscrewY s') = length (leadscrewY s)
       \<and> (numLeadscrews s' = numLeadscrews s
          \<or> (\<exists>xs ys. paramX gb = Some xs \<and> paramY gb = Some ys \<and> length xs = length ys
                \<and> numLeadscrews s' = length xs))"
  using assms
  by (auto simp: Configure_def Let_def split: if_splits prod.splits option.splits sum.splits
        dest!: GetFloatArray_cases)

text \<open>C9, amended, at the same call.\<close>

theorem leadscrew_count_bounded_witness:
  "numLeadscrews oneScrew \<le> MaxLeadscrews
   \<and> length (leadscrewX oneScrew) = length (leadscrewX newObject)
   \<and> length (leadscrewY oneScrew) = length (leadscrewY newObject)"
proof -
  have h1: "numLeadscrews newObject \<le> MaxLeadscrews"
    by (simp add: newObject_def ZLeadscrewKinematics_new_def)
  show ?thesis
    using leadscrew_count_bounded [OF h1 run_single]
    by simp
qed

text \<open>
  C10: every M671 call (on a kinematics other than CoreXZ) that has X and Y lists of equal
  length, of at most \<^verbatim>\<open>MaxLeadscrews\<close> values, is accepted (it returns false), sets the
  leadscrew count to that length, and sets every entry of the last corrections to 0.0.
\<close>

theorem positions_reset_last_corrections:
  assumes "mCode = 671" and "kinematicsType s \<noteq> coreXZ"
    and "paramX gb = Some xs" and "paramY gb = Some ys"
    and "length xs = length ys" and "length xs \<le> MaxLeadscrews"
  shows "\<exists>s' reprap'. Configure baseConfigure mCode gb s reprap reply error =
            (Inr False, s', reprap', reply, error)
          \<and> lastCorrections s' = replicate (length (lastCorrections s)) (Fin 0.0)
          \<and> numLeadscrews s' = length xs"
  using assms
  by (simp add: Configure_def GetFloatArray_ok Let_def map_replicate_const split: prod.splits)

text \<open>
  C10 at two leadscrews with last corrections 2 and -2, reconfigured to three positions.
\<close>

theorem positions_reset_last_corrections_witness:
  "\<exists>s' reprap'.
     Configure noBaseConfigure 671 (m671 (Some [Fin 0, Fin 200, Fin 100]) (Some [Fin 0, Fin 0, Fin 200]) None)
       (twoScrews 100 0.5 \<lparr> lastCorrections := [Fin 2, Fin (- 2), Fin 0, Fin 0] \<rparr>) (idleRepRap 2) [] False =
     (Inr False, s', reprap', [], False)
     \<and> lastCorrections s' = [Fin 0, Fin 0, Fin 0, Fin 0]
     \<and> numLeadscrews s' = 3"
proof -
  have h1: "(671 :: nat) = 671"
    by simp
  have h2: "kinematicsType (twoScrews 100 0.5 \<lparr> lastCorrections := [Fin 2, Fin (- 2), Fin 0, Fin 0] \<rparr>) \<noteq> coreXZ"
    by (simp add: twoScrews_def newObject_def ZLeadscrewKinematics_new_def)
  have h3: "paramX (m671 (Some [Fin 0, Fin 200, Fin 100]) (Some [Fin 0, Fin 0, Fin 200]) None)
            = Some [Fin 0, Fin 200, Fin 100]"
    by (simp add: m671_def)
  have h4: "paramY (m671 (Some [Fin 0, Fin 200, Fin 100]) (Some [Fin 0, Fin 0, Fin 200]) None)
            = Some [Fin 0, Fin 0, Fin 200]"
    by (simp add: m671_def)
  have h5: "length [Fin 0, Fin 200, Fin 100] = length [Fin 0, Fin 0, Fin 200]"
    by simp
  have h6: "length [Fin 0, Fin 200, Fin 100] \<le> MaxLeadscrews"
    by (simp add: MaxLeadscrews_def)
  have r: "replicate (length [Fin 2, Fin (- 2), Fin 0, Fin 0]) (Fin 0.0) = [Fin 0, Fin 0, Fin 0, Fin 0]"
    by code_simp
  show ?thesis
    using positions_reset_last_corrections [OF h1 h2 h3 h4 h5 h6, of noBaseConfigure "idleRepRap 2" "[]" False]
    by (simp add: r numeral_3_eq_3)
qed

section \<open>Exact recovery with three leadscrews\<close>








end
